theory Spec2Isabelle
  imports Complex_Main "HOL-Library.Word"
begin

unbundle bit_operations_syntax

section \<open>JavaScript values used by the sticker renderer\<close>

text \<open>
  The renderer is the class \<open>ChatMoodApp\<close> of the web client (the methods
  \<open>updatePreview\<close>, \<open>drawStyledText\<close>, \<open>drawRainbowText\<close> and \<open>adjustBrightness\<close>).
  A JavaScript string is a sequence of UTF-16 code units: \<open>length\<close> counts code units and
  \<open>s[i]\<close> is the one-unit string at index \<open>i\<close>.
\<close>

type_synonym code_unit = "16 word"
type_synonym jsstring = "code_unit list"

definition lit :: "string \<Rightarrow> jsstring" where
  \<comment> \<open>a string literal of the source, all of whose characters are ASCII\<close>
  "lit s = map of_char s"

text \<open>
  What a property read can give here: \<open>undefined\<close>, a string, or a member inherited from
  \<open>Object.prototype\<close> (a function or an object; it is truthy and has no \<open>replace\<close>).
\<close>

datatype jsval = Undefined | Str jsstring | ProtoMember

datatype js_error = TypeError | SyntaxError

fun toBoolean :: "jsval \<Rightarrow> bool" where
  "toBoolean Undefined = False"
| "toBoolean (Str s) = (s \<noteq> [])"
| "toBoolean ProtoMember = True"

definition is_space :: "code_unit \<Rightarrow> bool" where
  \<comment> \<open>WhiteSpace and LineTerminator of ECMAScript, as \<open>trim\<close> and \<open>parseInt\<close> strip them\<close>
  "is_space c = (c \<in> {0x09, 0x0A, 0x0B, 0x0C, 0x0D, 0x20, 0xA0, 0x1680, 0x2028, 0x2029,
                       0x202F, 0x205F, 0x3000, 0xFEFF} \<or> (0x2000 \<le> c \<and> c \<le> 0x200A))"

definition trim :: "jsstring \<Rightarrow> jsstring" where
  "trim s = rev (dropWhile is_space (rev (dropWhile is_space s)))"

subsection \<open>Numbers read from strings\<close>

text \<open>
  \<open>parseInt\<close> returns a Number: \<open>NaN\<close>, an infinity, or an integer-valued double.
\<close>

datatype number = NaN | PosInfinity | NegInfinity | Finite int

definition digit_val :: "code_unit \<Rightarrow> nat option" where
  \<comment> \<open>the value of a digit in radix 16, \<open>None\<close> for any other code unit\<close>
  "digit_val c =
     (let n = unat c in
      if 48 \<le> n \<and> n \<le> 57 then Some (n - 48)
      else if 97 \<le> n \<and> n \<le> 102 then Some (n - 87)
      else if 65 \<le> n \<and> n \<le> 70 then Some (n - 55)
      else None)"

fun digits_value :: "nat \<Rightarrow> jsstring \<Rightarrow> nat" where
  \<comment> \<open>the mathematical value of the longest prefix of hexadecimal digits, from the left\<close>
  "digits_value acc [] = acc"
| "digits_value acc (c # cs) =
     (case digit_val c of None \<Rightarrow> acc | Some v \<Rightarrow> digits_value (16 * acc + v) cs)"

fun bits :: "nat \<Rightarrow> nat" where
  "bits n = (if n = 0 then 0 else Suc (bits (n div 2)))"

declare bits.simps [simp del]

definition to_double :: "nat \<Rightarrow> nat option" where
  \<comment> \<open>a natural number rounded to the nearest double (ties to even); \<open>None\<close> is infinity\<close>
  "to_double n =
     (if n < 2 ^ 53 then Some n
      else let e = bits n - 53; q = n div 2 ^ e; r = n mod 2 ^ e; half = 2 ^ (e - 1);
               m = (if half < r \<or> (r = half \<and> odd q) then q + 1 else q) * 2 ^ e
           in if m < 2 ^ 1024 then Some m else None)"

definition strip_prefix_0x :: "jsstring \<Rightarrow> jsstring" where
  "strip_prefix_0x s =
     (case s of a # b # rest \<Rightarrow> if a = 0x30 \<and> (b = 0x78 \<or> b = 0x58) then rest else s
              | _ \<Rightarrow> s)"

definition parseInt16 :: "jsstring \<Rightarrow> number" where
  \<comment> \<open>\<open>parseInt(s, 16)\<close>\<close>
  "parseInt16 s =
     (let t = dropWhile is_space s;
          neg = (t \<noteq> [] \<and> hd t = 0x2D);
          u = (if t \<noteq> [] \<and> (hd t = 0x2D \<or> hd t = 0x2B) then tl t else t);
          d = strip_prefix_0x u
      in case d of
           [] \<Rightarrow> NaN
         | c # cs \<Rightarrow>
             (if digit_val c = None then NaN
              else case to_double (digits_value 0 d) of
                     None \<Rightarrow> if neg then NegInfinity else PosInfinity
                   | Some m \<Rightarrow> Finite (if neg then - int m else int m)))"

definition toInt32 :: "number \<Rightarrow> int" where
  \<comment> \<open>the operand conversion of the bitwise operators\<close>
  "toInt32 x = (case x of Finite n \<Rightarrow> signed_take_bit 31 n | _ \<Rightarrow> 0)"

definition sar :: "int \<Rightarrow> nat \<Rightarrow> int" where
  \<comment> \<open>\<open>a >> n\<close> on a 32-bit operand: the sign-propagating shift\<close>
  "sar a n = drop_bit n a"

definition shl :: "int \<Rightarrow> nat \<Rightarrow> int" where
  \<comment> \<open>\<open>a << n\<close> on a 32-bit operand\<close>
  "shl a n = signed_take_bit 31 (push_bit n a)"

subsection \<open>Numbers written as strings\<close>

definition hex_digit :: "nat \<Rightarrow> code_unit" where
  \<comment> \<open>\<open>toString(16)\<close> writes lower-case digits\<close>
  "hex_digit v = (if v < 10 then of_nat (48 + v) else of_nat (87 + v))"

function toString16 :: "nat \<Rightarrow> jsstring" where
  "toString16 n = (if n < 16 then [hex_digit n] else toString16 (n div 16) @ [hex_digit (n mod 16)])"
  by pat_completeness auto
termination
  by (relation "measure id") auto

declare toString16.simps [simp del]

definition padStart :: "nat \<Rightarrow> code_unit \<Rightarrow> jsstring \<Rightarrow> jsstring" where
  "padStart k c s = replicate (k - length s) c @ s"

fun replace_first :: "code_unit \<Rightarrow> jsstring \<Rightarrow> jsstring" where
  \<comment> \<open>\<open>s.replace(c, '')\<close> with a one-character pattern: the first occurrence goes\<close>
  "replace_first c [] = []"
| "replace_first c (x # xs) = (if x = c then xs else x # replace_first c xs)"

section \<open>The colour utility\<close>

definition clamp255 :: "int \<Rightarrow> int" where
  \<comment> \<open>\<open>Math.max(0, Math.min(255, v))\<close>\<close>
  "clamp255 v = max 0 (min 255 v)"

definition adjustBrightness :: "jsstring \<Rightarrow> int \<Rightarrow> jsstring" where
  "adjustBrightness color amount =
     (let hex = replace_first 0x23 color;
          num = toInt32 (parseInt16 hex);
          r = clamp255 (sar num 16 + amount);
          g = clamp255 ((sar num 8 AND 0x00FF) + amount);
          b = clamp255 ((num AND 0x0000FF) + amount)
      in 0x23 # padStart 6 0x30 (toString16 (nat (shl r 16 OR shl g 8 OR b))))"

definition adjustBrightness_val :: "jsval \<Rightarrow> int \<Rightarrow> js_error + jsstring" where
  \<comment> \<open>the same call on a value that need not be a string: only a string has \<open>replace\<close>\<close>
  "adjustBrightness_val v amount =
     (case v of Str color \<Rightarrow> Inr (adjustBrightness color amount) | _ \<Rightarrow> Inl TypeError)"


section \<open>The canvas\<close>

text \<open>
  The 2D context is the browser's. Its state is a record; each drawing call appends to
  \<open>drawn\<close> what was drawn together with the attributes of the context that the call
  paints with. A shadow is painted only when the blur or one of the offsets is non-zero.
  The context stores the colour strings the program assigns as they are. Coordinates and
  widths, which are JavaScript numbers, are real numbers here.
\<close>

type_synonym css_parser = "jsstring \<Rightarrow> bool"
  \<comment> \<open>whether the browser reads a string as a CSS colour, for the strings that are not
      \<open>#\<close> followed by ASCII letters and digits only (names, \<open>rgb()\<close>, ...): a parameter here\<close>

definition is_alnum :: "code_unit \<Rightarrow> bool" where
  "is_alnum c =
     (let n = unat c in (48 \<le> n \<and> n \<le> 57) \<or> (65 \<le> n \<and> n \<le> 90) \<or> (97 \<le> n \<and> n \<le> 122))"

definition is_css_color :: "css_parser \<Rightarrow> jsstring \<Rightarrow> bool" where
  \<comment> \<open>a string \<open>#\<close> and letters or digits is a colour when these are 3, 4, 6 or 8
      hexadecimal digits; the empty string is none\<close>
  "is_css_color cp s =
     (case s of
        [] \<Rightarrow> False
      | h # ds \<Rightarrow>
          if h = 0x23 \<and> list_all is_alnum ds
          then list_all (\<lambda>d. digit_val d \<noteq> None) ds \<and> length ds \<in> {3, 4, 6, 8}
          else cp s)"

datatype gradient =
    RadialGradient real real real real real real "(real \<times> jsstring) list"
  | LinearGradient real real real real "(real \<times> jsstring) list"

datatype style = Color jsstring | Gradient gradient

datatype shadow = NoShadow | Shadow jsstring real real real

datatype typography = Typography jsstring jsstring jsstring

datatype draw =
    FillRect real real real real style shadow
  | StrokeRect real real real real style real shadow
  | FillText jsstring real real style typography shadow
  | StrokeText jsstring real real style real typography shadow
  | ClearRect real real real real

record context2d =
  canvas_width :: real
  canvas_height :: real
  drawn :: "draw list"
  fillStyle :: style
  strokeStyle :: style
  lineWidth :: real
  font :: jsstring
  textAlign :: jsstring
  textBaseline :: jsstring
  shadowColor :: jsstring
  shadowBlur :: real
  shadowOffsetX :: real
  shadowOffsetY :: real

type_synonym metrics = "jsstring \<Rightarrow> jsstring \<Rightarrow> real"
  \<comment> \<open>\<open>measureText(text).width\<close> under a font: the browser's, a parameter here\<close>

definition fresh_context :: "real \<Rightarrow> real \<Rightarrow> context2d" where
  \<comment> \<open>the state of a context just obtained from \<open>getContext('2d')\<close>\<close>
  "fresh_context w h =
     \<lparr>canvas_width = w, canvas_height = h, drawn = [],
      fillStyle = Color (lit ''#000000''), strokeStyle = Color (lit ''#000000''), lineWidth = 1,
      font = lit ''10px sans-serif'', textAlign = lit ''start'', textBaseline = lit ''alphabetic'',
      shadowColor = lit ''rgba(0, 0, 0, 0)'', shadowBlur = 0, shadowOffsetX = 0, shadowOffsetY = 0\<rparr>"

definition shadow_of :: "context2d \<Rightarrow> shadow" where
  "shadow_of c =
     (if shadowBlur c = 0 \<and> shadowOffsetX c = 0 \<and> shadowOffsetY c = 0 then NoShadow
      else Shadow (shadowColor c) (shadowBlur c) (shadowOffsetX c) (shadowOffsetY c))"

definition typography_of :: "context2d \<Rightarrow> typography" where
  "typography_of c = Typography (font c) (textAlign c) (textBaseline c)"

definition clearRect :: "real \<Rightarrow> real \<Rightarrow> real \<Rightarrow> real \<Rightarrow> context2d \<Rightarrow> context2d" where
  \<comment> \<open>clearing the whole surface leaves nothing of what was drawn before\<close>
  "clearRect x y w h c =
     (if x \<le> 0 \<and> y \<le> 0 \<and> canvas_width c \<le> x + w \<and> canvas_height c \<le> y + h
      then c\<lparr>drawn := []\<rparr>
      else c\<lparr>drawn := drawn c @ [ClearRect x y w h]\<rparr>)"

definition fillRect :: "real \<Rightarrow> real \<Rightarrow> real \<Rightarrow> real \<Rightarrow> context2d \<Rightarrow> context2d" where
  "fillRect x y w h c = c\<lparr>drawn := drawn c @ [FillRect x y w h (fillStyle c) (shadow_of c)]\<rparr>"

definition strokeRect :: "real \<Rightarrow> real \<Rightarrow> real \<Rightarrow> real \<Rightarrow> context2d \<Rightarrow> context2d" where
  "strokeRect x y w h c =
     c\<lparr>drawn := drawn c @ [StrokeRect x y w h (strokeStyle c) (lineWidth c) (shadow_of c)]\<rparr>"

definition fillText :: "jsstring \<Rightarrow> real \<Rightarrow> real \<Rightarrow> context2d \<Rightarrow> context2d" where
  "fillText t x y c =
     c\<lparr>drawn := drawn c @ [FillText t x y (fillStyle c) (typography_of c) (shadow_of c)]\<rparr>"

definition strokeText :: "jsstring \<Rightarrow> real \<Rightarrow> real \<Rightarrow> context2d \<Rightarrow> context2d" where
  "strokeText t x y c =
     c\<lparr>drawn := drawn c @
        [StrokeText t x y (strokeStyle c) (lineWidth c) (typography_of c) (shadow_of c)]\<rparr>"

definition createRadialGradient ::
  "real \<Rightarrow> real \<Rightarrow> real \<Rightarrow> real \<Rightarrow> real \<Rightarrow> real \<Rightarrow> gradient" where
  "createRadialGradient x0 y0 r0 x1 y1 r1 = RadialGradient x0 y0 r0 x1 y1 r1 []"

definition createLinearGradient :: "real \<Rightarrow> real \<Rightarrow> real \<Rightarrow> real \<Rightarrow> gradient" where
  "createLinearGradient x0 y0 x1 y1 = LinearGradient x0 y0 x1 y1 []"

fun add_stop :: "real \<Rightarrow> jsstring \<Rightarrow> gradient \<Rightarrow> gradient" where
  \<comment> \<open>the gradient with one more stop\<close>
  "add_stop off col (RadialGradient x0 y0 r0 x1 y1 r1 stops) =
     RadialGradient x0 y0 r0 x1 y1 r1 (stops @ [(off, col)])"
| "add_stop off col (LinearGradient x0 y0 x1 y1 stops) =
     LinearGradient x0 y0 x1 y1 (stops @ [(off, col)])"

definition addColorStop ::
  "css_parser \<Rightarrow> real \<Rightarrow> jsval \<Rightarrow> gradient \<Rightarrow> js_error + gradient" where
  \<comment> \<open>the call throws when the string is no colour; a value that is not a string converts to
      text that is no colour\<close>
  "addColorStop cp off v g =
     (case v of
        Str col \<Rightarrow> if is_css_color cp col then Inr (add_stop off col g) else Inl SyntaxError
      | _ \<Rightarrow> Inl SyntaxError)"

section \<open>The application\<close>

record app =
  selectedMood :: jsstring
  selectedEmoji :: jsstring
  customText :: jsstring
  textColor :: jsstring
  selectedEffect :: jsstring

definition backgroundColors :: "(jsstring \<times> jsstring) list" where
  \<comment> \<open>the own properties of the object literal \<open>this.backgroundColors\<close>\<close>
  "backgroundColors =
     [(lit ''happy'', lit ''#FFE066''), (lit ''sad'', lit ''#87CEEB''),
      (lit ''angry'', lit ''#FF6B6B''), (lit ''excited'', lit ''#FF8E53''),
      (lit ''calm'', lit ''#9ECAE1''), (lit ''love'', lit ''#FFB6C1''),
      (lit ''cool'', lit ''#98FB98''), (lit ''tired'', lit ''#DDA0DD'')]"

definition object_prototype_keys :: "jsstring list" where
  \<comment> \<open>an object literal inherits from \<open>Object.prototype\<close>: a read of one of these names on it
      finds the inherited member\<close>
  "object_prototype_keys =
     [lit ''constructor'', lit ''hasOwnProperty'', lit ''isPrototypeOf'',
      lit ''propertyIsEnumerable'', lit ''toLocaleString'', lit ''toString'', lit ''valueOf'',
      lit ''__proto__'', lit ''__defineGetter__'', lit ''__defineSetter__'',
      lit ''__lookupGetter__'', lit ''__lookupSetter__'']"

definition get_backgroundColor :: "jsstring \<Rightarrow> jsval" where
  \<comment> \<open>\<open>this.backgroundColors[key]\<close>\<close>
  "get_backgroundColor key =
     (case map_of backgroundColors key of
        Some v \<Rightarrow> Str v
      | None \<Rightarrow> if key \<in> set object_prototype_keys then ProtoMember else Undefined)"

definition bgColor_of :: "jsstring \<Rightarrow> jsval" where
  \<comment> \<open>\<open>this.backgroundColors[this.selectedMood] || '#FFE066'\<close>\<close>
  "bgColor_of mood =
     (let v = get_backgroundColor mood in if toBoolean v then v else Str (lit ''#FFE066''))"

definition paint_background :: "css_parser \<Rightarrow> app \<Rightarrow> context2d \<Rightarrow> js_error + context2d" where
  \<comment> \<open>the part of \<open>updatePreview\<close> under the comment \<open>Set background\<close>\<close>
  "paint_background cp a c =
     (let bgColor = bgColor_of (selectedMood a);
          gradient = createRadialGradient 256 256 0 256 256 300
      in case addColorStop cp 0 bgColor gradient of
           Inl e \<Rightarrow> Inl e
         | Inr g0 \<Rightarrow>
             (case adjustBrightness_val bgColor (- 20) of
                Inl e \<Rightarrow> Inl e
              | Inr darker \<Rightarrow>
                  (case addColorStop cp 1 (Str darker) g0 of
                     Inl e \<Rightarrow> Inl e
                   | Inr g1 \<Rightarrow>
                       Inr (fillRect 0 0 (canvas_width c) (canvas_height c)
                              (c\<lparr>fillStyle := Gradient g1\<rparr>)))))"

definition draw_emoji :: "app \<Rightarrow> context2d \<Rightarrow> context2d" where
  \<comment> \<open>the part of \<open>updatePreview\<close> under the comment \<open>Draw emoji\<close>\<close>
  "draw_emoji a c =
     (let c1 = c\<lparr>font := lit ''200px Arial'', textAlign := lit ''center'',
                  textBaseline := lit ''middle''\<rparr>;
          c2 = fillText (selectedEmoji a) 258 258 (c1\<lparr>fillStyle := Color (lit ''rgba(0, 0, 0, 0.2)'')\<rparr>)
      in fillText (selectedEmoji a) 256 256 (c2\<lparr>fillStyle := Color (lit ''#000000'')\<rparr>))"

definition add_border :: "context2d \<Rightarrow> context2d" where
  \<comment> \<open>the part of \<open>updatePreview\<close> under the comment \<open>Add border\<close>\<close>
  "add_border c =
     strokeRect 2 2 (canvas_width c - 4) (canvas_height c - 4)
       (c\<lparr>strokeStyle := Color (lit ''rgba(255, 255, 255, 0.3)''), lineWidth := 4\<rparr>)"


definition rainbow_colors :: "jsstring list" where
  "rainbow_colors =
     [lit ''#FF0000'', lit ''#FF7F00'', lit ''#FFFF00'', lit ''#00FF00'', lit ''#0000FF'',
      lit ''#4B0082'', lit ''#9400D3'']"

function rainbow_loop ::
  "jsstring \<Rightarrow> real \<Rightarrow> real \<Rightarrow> real \<Rightarrow> nat \<Rightarrow> context2d \<Rightarrow> context2d" where
  \<comment> \<open>the \<open>for\<close> loop of \<open>drawRainbowText\<close>, from index \<open>i\<close> on\<close>
  "rainbow_loop text startX charWidth y i c =
     (if i < length text
      then rainbow_loop text startX charWidth y (Suc i)
             (fillText [text ! i] (startX + real i * charWidth + charWidth / 2) y
                (c\<lparr>fillStyle := Color (rainbow_colors ! (i mod length rainbow_colors))\<rparr>))
      else c)"
  by pat_completeness auto
termination
  by (relation "measure (\<lambda>(text, startX, charWidth, y, i, c). length text - i)") auto

declare rainbow_loop.simps [simp del]

definition drawRainbowText :: "metrics \<Rightarrow> jsstring \<Rightarrow> real \<Rightarrow> real \<Rightarrow> context2d \<Rightarrow> context2d" where
  \<comment> \<open>for the empty text the two quotients are not used: the loop body never runs\<close>
  "drawRainbowText mt text x y c =
     (let charWidth = mt (font c) text / real (length text);
          startX = x - mt (font c) text / 2
      in rainbow_loop text startX charWidth y 0 c)"

definition draw_main_text :: "app \<Rightarrow> jsstring \<Rightarrow> real \<Rightarrow> real \<Rightarrow> context2d \<Rightarrow> context2d" where
  \<comment> \<open>the end of \<open>drawStyledText\<close>, under the comments \<open>Draw main text\<close> and \<open>Reset shadow\<close>\<close>
  "draw_main_text a text x y c =
     (fillText text x y (c\<lparr>fillStyle := Color (textColor a)\<rparr>))\<lparr>shadowBlur := 0\<rparr>"

definition drawStyledText ::
  "css_parser \<Rightarrow> metrics \<Rightarrow> app \<Rightarrow> jsstring \<Rightarrow> real \<Rightarrow> real \<Rightarrow> context2d \<Rightarrow>
     js_error option \<times> context2d" where
  \<comment> \<open>the exception thrown, if any, and the context as the call leaves it\<close>
  "drawStyledText cp mt a text x y c0 =
     (let c = c0\<lparr>font := lit ''bold 48px Roboto, Arial, sans-serif'', textAlign := lit ''center'',
                  textBaseline := lit ''middle''\<rparr>
      in if selectedEffect a = lit ''shadow'' then
           (None, draw_main_text a text x y
                    (fillText text (x + 3) (y + 3)
                       (c\<lparr>fillStyle := Color (lit ''rgba(0, 0, 0, 0.5)'')\<rparr>)))
         else if selectedEffect a = lit ''glow'' then
           (None, draw_main_text a text x y
                    (c\<lparr>shadowColor := textColor a, shadowBlur := 10, shadowOffsetX := 0,
                       shadowOffsetY := 0\<rparr>))
         else if selectedEffect a = lit ''outline'' then
           (None, draw_main_text a text x y
                    (strokeText text x y
                       (c\<lparr>strokeStyle := Color (adjustBrightness (textColor a) (- 40)),
                          lineWidth := 4\<rparr>)))
         else if selectedEffect a = lit ''gradient'' then
           (case addColorStop cp 0 (Str (textColor a))
                   (createLinearGradient 0 (y - 24) 0 (y + 24)) of
              Inl e \<Rightarrow> (Some e, c)
            | Inr g0 \<Rightarrow>
                (case addColorStop cp 1 (Str (adjustBrightness (textColor a) (- 30))) g0 of
                   Inl e \<Rightarrow> (Some e, c)
                 | Inr textGradient \<Rightarrow>
                     (None, fillText text x y (c\<lparr>fillStyle := Gradient textGradient\<rparr>))))
         else if selectedEffect a = lit ''rainbow'' then (None, drawRainbowText mt text x y c)
         else (None, draw_main_text a text x y c))"

definition updatePreview ::
  "css_parser \<Rightarrow> metrics \<Rightarrow> app \<Rightarrow> context2d \<Rightarrow> js_error option \<times> context2d" where
  \<comment> \<open>the exception thrown, if any, and the context as the call leaves it\<close>
  "updatePreview cp mt a c0 =
     (let c1 = clearRect 0 0 (canvas_width c0) (canvas_height c0) c0
      in case paint_background cp a c1 of
           Inl e \<Rightarrow> (Some e, c1)
         | Inr c2 \<Rightarrow>
             (let c3 = draw_emoji a c2
              in if trim (customText a) \<noteq> []
                 then (case drawStyledText cp mt a (trim (customText a)) 256 400 c3 of
                         (Some e, c4) \<Rightarrow> (Some e, c4)
                       | (None, c4) \<Rightarrow> (None, add_border c4))
                 else (None, add_border c3)))"


section \<open>Notions of the specification\<close>

text \<open>
  The definitions of this section are not code of the program: they say what the
  specification's words mean, for the statements below.
\<close>

fun hex_pair :: "code_unit \<Rightarrow> code_unit \<Rightarrow> nat option" where
  "hex_pair a b =
     (case (digit_val a, digit_val b) of (Some x, Some y) \<Rightarrow> Some (16 * x + y) | _ \<Rightarrow> None)"

definition channels :: "jsstring \<Rightarrow> (nat \<times> nat \<times> nat) option" where
  \<comment> \<open>the R, G and B channels of a 6-digit hex colour \<open>#RRGGBB\<close>, \<open>None\<close> for any other string\<close>
  "channels c =
     (case c of
        [h, r1, r2, g1, g2, b1, b2] \<Rightarrow>
          if h = 0x23 then
            (case (hex_pair r1 r2, hex_pair g1 g2, hex_pair b1 b2) of
               (Some r, Some g, Some b) \<Rightarrow> Some (r, g, b)
             | _ \<Rightarrow> None)
          else None
      | _ \<Rightarrow> None)"

definition saturate :: "int \<Rightarrow> nat" where
  \<comment> \<open>clamping to \<open>[0, 255]\<close> without wrap-around\<close>
  "saturate v = (if v \<le> 0 then 0 else if 255 \<le> v then 255 else nat v)"

definition hex_color :: "nat \<Rightarrow> nat \<Rightarrow> nat \<Rightarrow> jsstring" where
  \<comment> \<open>the colour \<open>#rrggbb\<close> of three channels\<close>
  "hex_color r g b =
     [0x23, hex_digit (r div 16), hex_digit (r mod 16), hex_digit (g div 16), hex_digit (g mod 16),
      hex_digit (b div 16), hex_digit (b mod 16)]"

fun code_points :: "jsstring \<Rightarrow> nat list" where
  \<comment> \<open>the Unicode characters of a string: a high surrogate followed by a low one is one character\<close>
  "code_points [] = []"
| "code_points [a] = [unat a]"
| "code_points (a # b # rest) =
     (if 0xD800 \<le> a \<and> a \<le> 0xDBFF \<and> 0xDC00 \<le> b \<and> b \<le> 0xDFFF
      then (0x10000 + (unat a - 0xD800) * 0x400 + (unat b - 0xDC00)) # code_points rest
      else unat a # code_points (b # rest))"

definition glyphs :: "draw list \<Rightarrow> jsstring list" where
  \<comment> \<open>the texts of the text-drawing calls, in order\<close>
  "glyphs ds =
     concat (map (\<lambda>d. case d of FillText t _ _ _ _ _ \<Rightarrow> [t] | StrokeText t _ _ _ _ _ _ \<Rightarrow> [t]
                            | _ \<Rightarrow> []) ds)"

definition updatePreview_without_text ::
  "css_parser \<Rightarrow> app \<Rightarrow> context2d \<Rightarrow> js_error option \<times> context2d" where
  \<comment> \<open>the pipeline with the text stage left out: background, emoji, border\<close>
  "updatePreview_without_text cp a c0 =
     (case paint_background cp a (clearRect 0 0 (canvas_width c0) (canvas_height c0) c0) of
        Inl e \<Rightarrow> (Some e, clearRect 0 0 (canvas_width c0) (canvas_height c0) c0)
      | Inr c2 \<Rightarrow> (None, add_border (draw_emoji a c2)))"

inductive reachable :: "css_parser \<Rightarrow> metrics \<Rightarrow> real \<Rightarrow> real \<Rightarrow> context2d \<Rightarrow> bool"
  for cp :: css_parser and mt :: metrics and w :: real and h :: real where
  \<comment> \<open>the states of the context between calls: it is created once and every call of
      \<open>updatePreview\<close>, for whatever selection, leaves it for the next\<close>
    fresh: "reachable cp mt w h (fresh_context w h)"
  | call: "reachable cp mt w h c \<Longrightarrow> reachable cp mt w h (snd (updatePreview cp mt a c))"

definition fixed_pitch :: metrics where
  \<comment> \<open>a font metric for the examples: every code unit is 24 wide\<close>
  "fixed_pitch f t = 24 * real (length t)"

definition hex_only :: css_parser where
  \<comment> \<open>a colour parser for the examples: it knows no notation besides the hexadecimal ones\<close>
  "hex_only s = False"

subsection \<open>Auxiliary notions of the proofs\<close>

fun fixed :: "nat \<Rightarrow> nat \<Rightarrow> jsstring" where
  \<comment> \<open>the last \<open>k\<close> hexadecimal digits of a number, as \<open>padStart\<close> completes them\<close>
  "fixed 0 n = []"
| "fixed (Suc k) n = fixed k (n div 16) @ [hex_digit (n mod 16)]"

definition rainbow_glyph ::
  "jsstring \<Rightarrow> real \<Rightarrow> real \<Rightarrow> real \<Rightarrow> typography \<Rightarrow> shadow \<Rightarrow> nat \<Rightarrow> draw" where
  \<comment> \<open>the glyph at index \<open>j\<close> of a rainbow text: its colour in the cycle and its position\<close>
  "rainbow_glyph text sx cw y ty sh j =
     FillText [text ! j] (sx + real j * cw + cw / 2) y (Color (rainbow_colors ! (j mod 7))) ty sh"

definition caption_type :: typography where
  \<comment> \<open>the font and alignment of the caption\<close>
  "caption_type =
     Typography (lit ''bold 48px Roboto, Arial, sans-serif'') (lit ''center'') (lit ''middle'')"

definition quiescent :: "context2d \<Rightarrow> bool" where
  \<comment> \<open>no shadow is switched on\<close>
  "quiescent c = (shadowBlur c = 0 \<and> shadowOffsetX c = 0 \<and> shadowOffsetY c = 0)"

definition painted :: "app \<Rightarrow> jsstring \<Rightarrow> context2d \<Rightarrow> context2d" where
  \<comment> \<open>the context after the background of base colour \<open>col\<close> and the emoji are drawn\<close>
  "painted a col c =
     draw_emoji a
       (c\<lparr>drawn := [],
          fillStyle := Gradient (RadialGradient 256 256 0 256 256 300
                                   [(0, col), (1, adjustBrightness col (- 20))]),
          drawn := [FillRect 0 0 (canvas_width c) (canvas_height c)
                      (Gradient (RadialGradient 256 256 0 256 256 300
                                   [(0, col), (1, adjustBrightness col (- 20))]))
                      (shadow_of c)]\<rparr>)"

section \<open>The colour utility: saturation\<close>

lemma digit_val_less: "digit_val c = Some v \<Longrightarrow> v < 16"
  by (auto simp: digit_val_def Let_def split: if_splits)

lemma digit_val_unat: "digit_val c = Some v \<Longrightarrow> unat c \<in> {48..57} \<union> {65..70} \<union> {97..102}"
  by (auto simp: digit_val_def Let_def split: if_splits)

lemma digit_not_space: "digit_val c = Some v \<Longrightarrow> \<not> is_space c"
  apply (drule digit_val_unat)
  apply (auto simp: is_space_def word_le_nat_alt)
  done

lemma digit_not_sign: "digit_val c = Some v \<Longrightarrow> c \<noteq> 0x2D \<and> c \<noteq> 0x2B \<and> c \<noteq> 0x78 \<and> c \<noteq> 0x58 \<and> c \<noteq> 0x23"
  by (drule digit_val_unat) auto

lemma digit_val_hex_digit: "v < 16 \<Longrightarrow> digit_val (hex_digit v) = Some v"
proof -
  assume "v < 16"
  then have "v \<in> {0, 1, 2, 3, 4, 5, 6, 7, 8, 9, 10, 11, 12, 13, 14, 15}" by simp arith
  then show ?thesis
    by (elim insertE emptyE) (simp_all add: digit_val_def hex_digit_def)
qed

lemma and_255: "(x::int) AND 255 = x mod 256"
proof -
  have "x AND mask 8 = x mod 2 ^ 8"
    by (simp only: take_bit_eq_mask [symmetric] take_bit_eq_mod)
  then show ?thesis by (simp add: mask_eq_exp_minus_1)
qed

lemma or_low: 
  assumes "0 \<le> lo" "lo < 2 ^ n"
  shows "push_bit n hi OR lo = hi * 2 ^ n + (lo::int)"
proof -
  have "take_bit n lo = lo" using assms by (simp add: take_bit_int_eq_self)
  then have "push_bit n hi OR lo = concat_bit n lo hi"
    by (simp add: concat_bit_def or.commute)
  also have "\<dots> = take_bit n lo + push_bit n hi" by (rule concat_bit_eq)
  finally show ?thesis using \<open>take_bit n lo = lo\<close> by (simp add: push_bit_eq_mult)
qed

lemma pack: 
  assumes "0 \<le> r" "r \<le> 255" "0 \<le> g" "g \<le> 255" "0 \<le> b" "b \<le> (255::int)"
  shows "shl r 16 OR shl g 8 OR b = r * 65536 + g * 256 + b"
proof -
  have r: "shl r 16 = push_bit 16 r" unfolding shl_def
    using assms by (intro signed_take_bit_int_eq_self) (simp_all add: push_bit_eq_mult)
  have g: "shl g 8 = g * 256" unfolding shl_def
    using assms by (subst signed_take_bit_int_eq_self) (simp_all add: push_bit_eq_mult)
  have "push_bit 16 r OR (g * 256 OR b) = r * 2 ^ 16 + (g * 256 OR b)"
  proof (rule or_low)
    have "g * 256 OR b = g * 2 ^ 8 + b" using or_low [of b 8 g] assms by (simp add: push_bit_eq_mult)
    then show "0 \<le> g * 256 OR b" "g * 256 OR b < 2 ^ 16" using assms by simp_all
  qed
  moreover have "g * 256 OR b = g * 2 ^ 8 + b" using or_low [of b 8 g] assms by (simp add: push_bit_eq_mult)
  ultimately show ?thesis by (simp add: r g or.assoc)
qed

lemma fixed_zero: "fixed k 0 = replicate k 0x30"
  by (induction k) (simp_all add: hex_digit_def replicate_append_same)

lemma padStart_snoc: "padStart (Suc k) c (s @ [x]) = padStart k c s @ [x]"
  by (simp add: padStart_def)

lemma pad_fixed: "n < 16 ^ Suc k \<Longrightarrow> padStart (Suc k) 0x30 (toString16 n) = fixed (Suc k) n"
proof (induction k arbitrary: n)
  case 0
  then show ?case by (simp add: toString16.simps [of n] padStart_def)
next
  case (Suc k)
  show ?case
  proof (cases "n < 16")
    case True
    then show ?thesis
      by (simp add: toString16.simps [of n] padStart_def fixed_zero replicate_append_same)
  next
    case False
    from Suc.prems have "n div 16 < 16 ^ Suc k" by (simp add: less_mult_imp_div_less)
    then have "padStart (Suc k) 0x30 (toString16 (n div 16)) = fixed (Suc k) (n div 16)"
      by (rule Suc.IH)
    with False show ?thesis
      by (subst toString16.simps) (simp add: padStart_snoc del: fixed.simps, simp)
  qed
qed

lemma fixed_append: "b < 16 ^ k \<Longrightarrow> fixed (j + k) (a * 16 ^ k + b) = fixed j a @ fixed k b"
proof (induction k arbitrary: b)
  case 0
  then show ?case by simp
next
  case (Suc k)
  have d: "(a * 16 ^ Suc k + b) div 16 = a * 16 ^ k + b div 16" by simp
  have "a * 16 ^ Suc k = 16 * (a * 16 ^ k)" by simp
  then have m: "(a * 16 ^ Suc k + b) mod 16 = b mod 16" by (simp only: mod_mult_self4)
  from Suc.prems have "b div 16 < 16 ^ k" by (simp add: less_mult_imp_div_less)
  then have "fixed (j + k) (a * 16 ^ k + b div 16) = fixed j a @ fixed k (b div 16)" by (rule Suc.IH)
  then show ?case by (simp only: add_Suc_right fixed.simps d m) simp
qed

lemma fixed2: "r < 256 \<Longrightarrow> fixed 2 r = [hex_digit (r div 16), hex_digit (r mod 16)]"
  by (simp add: numeral_2_eq_2)

lemma render6:
  assumes "r < 256" "g < 256" "b < 256"
  shows "0x23 # padStart 6 0x30 (toString16 (r * 65536 + g * 256 + b)) = hex_color r g b"
proof -
  let ?n = "r * 65536 + g * 256 + b"
  have "?n < 16 ^ Suc 5" using assms by simp
  then have "padStart (Suc 5) 0x30 (toString16 ?n) = fixed (Suc 5) ?n" by (rule pad_fixed)
  moreover have "fixed (2 + 4) (r * 16 ^ 4 + (g * 256 + b)) = fixed 2 r @ fixed 4 (g * 256 + b)"
    using assms by (intro fixed_append) simp
  moreover have "fixed (2 + 2) (g * 16 ^ 2 + b) = fixed 2 g @ fixed 2 b"
    using assms by (intro fixed_append) simp
  ultimately show ?thesis using assms
    by (simp add: hex_color_def fixed2 add.assoc del: fixed.simps)
qed


lemma parse6:
  assumes "digit_val d1 = Some v1" "digit_val d2 = Some v2" "digit_val d3 = Some v3"
    "digit_val d4 = Some v4" "digit_val d5 = Some v5" "digit_val d6 = Some v6"
  shows "toInt32 (parseInt16 [d1, d2, d3, d4, d5, d6]) =
           int ((16 * v1 + v2) * 65536 + (16 * v3 + v4) * 256 + (16 * v5 + v6))"
proof -
  let ?n = "(16 * v1 + v2) * 65536 + (16 * v3 + v4) * 256 + (16 * v5 + v6)"
  have lt: "v1 < 16" "v2 < 16" "v3 < 16" "v4 < 16" "v5 < 16" "v6 < 16"
    using assms by (auto dest: digit_val_less)
  have dv: "digits_value 0 [d1, d2, d3, d4, d5, d6] = ?n"
    using assms by simp
  have small: "?n < 16777216" using lt by simp
  then have td: "to_double ?n = Some ?n" by (simp add: to_double_def)
  have "\<not> is_space d1" "d1 \<noteq> 0x2D" "d1 \<noteq> 0x2B" "d2 \<noteq> 0x78" "d2 \<noteq> 0x58"
    using assms digit_not_space digit_not_sign by blast+
  then have "parseInt16 [d1, d2, d3, d4, d5, d6] = Finite (int ?n)"
    using assms(1) dv td by (simp add: parseInt16_def strip_prefix_0x_def del: digits_value.simps)
  moreover have "signed_take_bit 31 (int ?n) = int ?n"
    using small by (intro signed_take_bit_int_eq_self) simp_all
  ultimately show ?thesis by (simp add: toInt32_def)
qed

lemma split_channels:
  assumes "r < 256" "g < 256" "b < (256::nat)"
  shows "sar (int (r * 65536 + g * 256 + b)) 16 = int r"
    and "sar (int (r * 65536 + g * 256 + b)) 8 AND 0x00FF = int g"
    and "int (r * 65536 + g * 256 + b) AND 0x0000FF = int b"
proof -
  let ?n = "r * 65536 + g * 256 + b"
  have a: "?n div 65536 = r" using assms by simp
  have "?n = (r * 256 + g) * 256 + b" by simp
  then have "?n div 256 = r * 256 + g" using assms by (simp del: mult_Suc_right)
  then have b: "?n div 256 mod 256 = g" using assms by simp
  have "?n = 256 * (r * 256 + g) + b" by simp
  then have "?n mod 256 = b mod 256" by (simp only: mod_mult_self4)
  then have c: "?n mod 256 = b" using assms by simp
  have "int ?n div 65536 = int (?n div 65536)" by (simp add: zdiv_int)
  then show "sar (int ?n) 16 = int r"
    by (simp only: sar_def drop_bit_eq_div a) simp
  have "int ?n div 256 mod 256 = int (?n div 256 mod 256)" by (simp add: zdiv_int zmod_int)
  then show "sar (int ?n) 8 AND 0x00FF = int g"
    by (simp only: sar_def drop_bit_eq_div and_255 b) simp
  have "int ?n mod 256 = int (?n mod 256)" by (simp add: zmod_int)
  then show "int ?n AND 0x0000FF = int b"
    by (simp only: and_255 c)
qed

lemma clamp255_saturate: "clamp255 v = int (saturate v)"
  by (simp add: clamp255_def saturate_def)

lemma saturate_le: "saturate v \<le> 255"
  by (auto simp: saturate_def)

lemma adjust_rgb:
  assumes "digit_val d1 = Some v1" "digit_val d2 = Some v2" "digit_val d3 = Some v3"
    "digit_val d4 = Some v4" "digit_val d5 = Some v5" "digit_val d6 = Some v6"
  shows "adjustBrightness [0x23, d1, d2, d3, d4, d5, d6] amount =
           hex_color (saturate (int (16 * v1 + v2) + amount)) (saturate (int (16 * v3 + v4) + amount))
             (saturate (int (16 * v5 + v6) + amount))"
proof -
  let ?r = "16 * v1 + v2" and ?g = "16 * v3 + v4" and ?b = "16 * v5 + v6"
  let ?r' = "saturate (int ?r + amount)" and ?g' = "saturate (int ?g + amount)"
    and ?b' = "saturate (int ?b + amount)"
  have lt: "?r < 256" "?g < 256" "?b < 256"
    using assms by (auto dest!: digit_val_less)
  have num: "toInt32 (parseInt16 [d1, d2, d3, d4, d5, d6]) = int (?r * 65536 + ?g * 256 + ?b)"
    using assms by (rule parse6)
  have hash: "replace_first 0x23 [0x23, d1, d2, d3, d4, d5, d6] = [d1, d2, d3, d4, d5, d6]"
    by simp
  have le: "?r' \<le> 255" "?g' \<le> 255" "?b' \<le> 255" by (rule saturate_le)+
  then have "shl (int ?r') 16 OR shl (int ?g') 8 OR int ?b' = int ?r' * 65536 + int ?g' * 256 + int ?b'"
    by (intro pack) simp_all
  then have packed: "nat (shl (int ?r') 16 OR shl (int ?g') 8 OR int ?b') = ?r' * 65536 + ?g' * 256 + ?b'"
    by (simp add: nat_add_distrib nat_mult_distrib)
  have "adjustBrightness [0x23, d1, d2, d3, d4, d5, d6] amount =
          0x23 # padStart 6 0x30 (toString16 (?r' * 65536 + ?g' * 256 + ?b'))"
    unfolding adjustBrightness_def Let_def hash
    by (simp only: num split_channels [OF lt] clamp255_saturate packed)
  also have "\<dots> = hex_color ?r' ?g' ?b'"
    using le by (intro render6) simp_all
  finally show ?thesis .
qed

lemma channels_hex_color:
  "r < 256 \<Longrightarrow> g < 256 \<Longrightarrow> b < 256 \<Longrightarrow> channels (hex_color r g b) = Some (r, g, b)"
  by (simp add: channels_def hex_color_def digit_val_hex_digit)

lemma channelsE:
  assumes "channels c = Some (r, g, b)"
  obtains d1 d2 d3 d4 d5 d6 v1 v2 v3 v4 v5 v6 where
    "c = [0x23, d1, d2, d3, d4, d5, d6]"
    "digit_val d1 = Some v1" "digit_val d2 = Some v2" "digit_val d3 = Some v3"
    "digit_val d4 = Some v4" "digit_val d5 = Some v5" "digit_val d6 = Some v6"
    "r = 16 * v1 + v2" "g = 16 * v3 + v4" "b = 16 * v5 + v6"
  using assms
  by (auto simp: channels_def split: list.splits if_splits option.splits)

lemma adjust_channels:
  assumes "channels c = Some (r, g, b)"
  shows "adjustBrightness c amount =
           hex_color (saturate (int r + amount)) (saturate (int g + amount)) (saturate (int b + amount))"
    and "channels (adjustBrightness c amount) =
           Some (saturate (int r + amount), saturate (int g + amount), saturate (int b + amount))"
    and "r \<le> 255 \<and> g \<le> 255 \<and> b \<le> 255"
proof -
  from assms obtain d1 d2 d3 d4 d5 d6 v1 v2 v3 v4 v5 v6 where c: "c = [0x23, d1, d2, d3, d4, d5, d6]"
    and d: "digit_val d1 = Some v1" "digit_val d2 = Some v2" "digit_val d3 = Some v3"
      "digit_val d4 = Some v4" "digit_val d5 = Some v5" "digit_val d6 = Some v6"
    and v: "r = 16 * v1 + v2" "g = 16 * v3 + v4" "b = 16 * v5 + v6"
    by (rule channelsE)
  from d v show "r \<le> 255 \<and> g \<le> 255 \<and> b \<le> 255" by (auto dest!: digit_val_less)
  show eq: "adjustBrightness c amount =
        hex_color (saturate (int r + amount)) (saturate (int g + amount)) (saturate (int b + amount))"
    unfolding c v using d by (rule adjust_rgb)
  show "channels (adjustBrightness c amount) =
        Some (saturate (int r + amount), saturate (int g + amount), saturate (int b + amount))"
    unfolding eq by (intro channels_hex_color) (auto simp: saturate_def)
qed

lemma channels_white: "channels (lit ''#FFFFFF'') = Some (255, 255, 255)"
  by (simp add: channels_def lit_def digit_val_def)

lemma channels_black: "channels (lit ''#000000'') = Some (0, 0, 0)"
  by (simp add: channels_def lit_def digit_val_def)

text \<open>
  Claim C1. For a 6-digit hex colour with channels \<open>r\<close>, \<open>g\<close>, \<open>b\<close> (each at most 255) and any
  integer amount, \<open>adjustBrightness\<close> returns the hex colour whose channels are
  \<open>r + amount\<close>, \<open>g + amount\<close> and \<open>b + amount\<close>, each clamped to \<open>[0, 255]\<close> by saturation.
  For \<open>#FFFFFF\<close> and \<open>-50\<close> every channel is 205, for \<open>#000000\<close> and \<open>+300\<close> every channel
  is 255.
\<close>

theorem adjustBrightness_saturates:
  "(channels c = Some (r, g, b) \<longrightarrow>
      r \<le> 255 \<and> g \<le> 255 \<and> b \<le> 255 \<and>
      adjustBrightness c amount =
        hex_color (saturate (int r + amount)) (saturate (int g + amount)) (saturate (int b + amount)) \<and>
      channels (adjustBrightness c amount) =
        Some (saturate (int r + amount), saturate (int g + amount), saturate (int b + amount)))
   \<and> channels (adjustBrightness (lit ''#FFFFFF'') (- 50)) = Some (205, 205, 205)
   \<and> channels (adjustBrightness (lit ''#000000'') 300) = Some (255, 255, 255)"
proof (intro conjI impI)
  assume ch: "channels c = Some (r, g, b)"
  from adjust_channels(3) [OF ch] show "r \<le> 255" "g \<le> 255" "b \<le> 255" by simp_all
  from ch show "adjustBrightness c amount =
        hex_color (saturate (int r + amount)) (saturate (int g + amount)) (saturate (int b + amount))"
    by (rule adjust_channels(1))
  from ch show "channels (adjustBrightness c amount) =
        Some (saturate (int r + amount), saturate (int g + amount), saturate (int b + amount))"
    by (rule adjust_channels(2))
next
  show "channels (adjustBrightness (lit ''#FFFFFF'') (- 50)) = Some (205, 205, 205)"
    using adjust_channels(2) [OF channels_white, of "- 50"] by (simp add: saturate_def)
next
  show "channels (adjustBrightness (lit ''#000000'') 300) = Some (255, 255, 255)"
    using adjust_channels(2) [OF channels_black, of 300] by (simp add: saturate_def)
qed

theorem adjustBrightness_saturates_witness:
  "channels (lit ''#FFE066'') = Some (255, 224, 102) \<and>
   adjustBrightness (lit ''#FFE066'') (- 20) = lit ''#ebcc52''"
proof -
  have ch: "channels (lit ''#FFE066'') = Some (255, 224, 102)"
    by (simp add: channels_def lit_def digit_val_def)
  have "hex_color 235 204 82 = lit ''#ebcc52''"
    by (simp add: hex_color_def hex_digit_def lit_def)
  with ch adjustBrightness_saturates [of "lit ''#FFE066''" 255 224 102 "- 20"] show ?thesis
    by (simp add: saturate_def)
qed

section \<open>Colour strings that the canvas accepts\<close>

lemma digit_alnum: "digit_val c = Some v \<Longrightarrow> is_alnum c"
  by (auto simp: digit_val_def is_alnum_def Let_def split: if_splits)

lemma hex6_css:
  assumes "channels s \<noteq> None"
  shows "is_css_color cp s"
proof -
  from assms obtain r g b where "channels s = Some (r, g, b)" by auto
  then obtain d1 d2 d3 d4 d5 d6 v1 v2 v3 v4 v5 v6 where s: "s = [0x23, d1, d2, d3, d4, d5, d6]"
    and d: "digit_val d1 = Some v1" "digit_val d2 = Some v2" "digit_val d3 = Some v3"
      "digit_val d4 = Some v4" "digit_val d5 = Some v5" "digit_val d6 = Some v6"
    by (rule channelsE)
  from d have "is_alnum d1" "is_alnum d2" "is_alnum d3" "is_alnum d4" "is_alnum d5" "is_alnum d6"
    by (auto dest: digit_alnum)
  with d show ?thesis by (simp add: s is_css_color_def)
qed

lemma adjust_any:
  "adjustBrightness k amount =
     hex_color
       (saturate (sar (toInt32 (parseInt16 (replace_first 0x23 k))) 16 + amount))
       (saturate ((sar (toInt32 (parseInt16 (replace_first 0x23 k))) 8 AND 0x00FF) + amount))
       (saturate ((toInt32 (parseInt16 (replace_first 0x23 k)) AND 0x0000FF) + amount))"
proof -
  let ?num = "toInt32 (parseInt16 (replace_first 0x23 k))"
  let ?r = "saturate (sar ?num 16 + amount)" and ?g = "saturate ((sar ?num 8 AND 0x00FF) + amount)"
    and ?b = "saturate ((?num AND 0x0000FF) + amount)"
  have le: "?r \<le> 255" "?g \<le> 255" "?b \<le> 255" by (rule saturate_le)+
  then have "shl (int ?r) 16 OR shl (int ?g) 8 OR int ?b = int ?r * 65536 + int ?g * 256 + int ?b"
    by (intro pack) simp_all
  then have packed: "nat (shl (int ?r) 16 OR shl (int ?g) 8 OR int ?b) = ?r * 65536 + ?g * 256 + ?b"
    by (simp add: nat_add_distrib nat_mult_distrib)
  have "adjustBrightness k amount = 0x23 # padStart 6 0x30 (toString16 (?r * 65536 + ?g * 256 + ?b))"
    unfolding adjustBrightness_def Let_def by (simp only: clamp255_saturate packed)
  also have "\<dots> = hex_color ?r ?g ?b"
    using le by (intro render6) simp_all
  finally show ?thesis .
qed

lemma adjust_hex6: "channels (adjustBrightness k amount) \<noteq> None"
proof -
  have "saturate v < 256" for v using saturate_le [of v] by simp
  then show ?thesis by (subst adjust_any) (simp add: channels_hex_color)
qed

lemma adjust_css [simp]: "is_css_color cp (adjustBrightness k amount)"
  by (rule hex6_css) (rule adjust_hex6)

lemma palette_hex6: "v \<in> snd ` set backgroundColors \<Longrightarrow> channels v \<noteq> None"
  by (auto simp: backgroundColors_def channels_def lit_def digit_val_def)


section \<open>The drawing calls of each stage\<close>

lemmas canvas_defs = fillRect_def strokeRect_def fillText_def strokeText_def clearRect_def
  shadow_of_def typography_of_def

lemmas text_defs = drawStyledText_def draw_main_text_def drawRainbowText_def
  createLinearGradient_def addColorStop_def

lemma lit_effects [simp]:
  "lit ''glow'' \<noteq> lit ''shadow''" "lit ''outline'' \<noteq> lit ''shadow''" "lit ''outline'' \<noteq> lit ''glow''"
  "lit ''gradient'' \<noteq> lit ''shadow''" "lit ''gradient'' \<noteq> lit ''glow''" "lit ''gradient'' \<noteq> lit ''outline''"
  "lit ''rainbow'' \<noteq> lit ''shadow''" "lit ''rainbow'' \<noteq> lit ''glow''" "lit ''rainbow'' \<noteq> lit ''outline''"
  "lit ''rainbow'' \<noteq> lit ''gradient''"
  by (simp_all add: lit_def)

lemma rainbow_loop_fields:
  "canvas_width (rainbow_loop t sx cw y i c) = canvas_width c \<and>
   canvas_height (rainbow_loop t sx cw y i c) = canvas_height c \<and>
   strokeStyle (rainbow_loop t sx cw y i c) = strokeStyle c \<and>
   lineWidth (rainbow_loop t sx cw y i c) = lineWidth c \<and>
   font (rainbow_loop t sx cw y i c) = font c \<and>
   textAlign (rainbow_loop t sx cw y i c) = textAlign c \<and>
   textBaseline (rainbow_loop t sx cw y i c) = textBaseline c \<and>
   shadowColor (rainbow_loop t sx cw y i c) = shadowColor c \<and>
   shadowBlur (rainbow_loop t sx cw y i c) = shadowBlur c \<and>
   shadowOffsetX (rainbow_loop t sx cw y i c) = shadowOffsetX c \<and>
   shadowOffsetY (rainbow_loop t sx cw y i c) = shadowOffsetY c"
proof (induction t sx cw y i c rule: rainbow_loop.induct)
  case (1 t sx cw y i c)
  show ?case
  proof (cases "i < length t")
    case True
    with 1 show ?thesis by (subst (1 2 3 4 5 6 7 8 9 10 11) rainbow_loop.simps) (simp add: fillText_def)
  next
    case False
    then show ?thesis by (simp add: rainbow_loop.simps)
  qed
qed

lemma rainbow_loop_drawn:
  "drawn (rainbow_loop t sx cw y i c) =
     drawn c @ map (rainbow_glyph t sx cw y (typography_of c) (shadow_of c)) [i..<length t]"
proof (induction t sx cw y i c rule: rainbow_loop.induct)
  case (1 t sx cw y i c)
  show ?case
  proof (cases "i < length t")
    case True
    let ?c' = "fillText [t ! i] (sx + real i * cw + cw / 2) y
                (c\<lparr>fillStyle := Color (rainbow_colors ! (i mod length rainbow_colors))\<rparr>)"
    have ty: "typography_of ?c' = typography_of c" "shadow_of ?c' = shadow_of c"
      by (simp_all add: canvas_defs)
    have d: "drawn ?c' = drawn c @ [rainbow_glyph t sx cw y (typography_of c) (shadow_of c) i]"
      by (simp add: fillText_def rainbow_glyph_def rainbow_colors_def typography_of_def shadow_of_def)
    from True have "rainbow_loop t sx cw y i c = rainbow_loop t sx cw y (Suc i) ?c'"
      by (subst rainbow_loop.simps) simp
    with 1 [OF True] True show ?thesis
      by (simp add: ty d upt_conv_Cons)
  next
    case False
    then show ?thesis by (simp add: rainbow_loop.simps)
  qed
qed

lemma drawRainbowText_drawn:
  "drawn (drawRainbowText mt t x y c) =
     drawn c @
     map (rainbow_glyph t (x - mt (font c) t / 2) (mt (font c) t / real (length t)) y
            (typography_of c) (shadow_of c)) [0..<length t]"
  by (simp add: drawRainbowText_def rainbow_loop_drawn Let_def)

lemma clearRect_all: "clearRect 0 0 (canvas_width c) (canvas_height c) c = c\<lparr>drawn := []\<rparr>"
  by (simp add: clearRect_def)

lemma bgColor_hex6:
  assumes "bgColor_of m = Str col"
  shows "channels col \<noteq> None"
proof (cases "map_of backgroundColors m")
  case None
  with assms have "col = lit ''#FFE066''"
    by (simp add: bgColor_of_def get_backgroundColor_def split: if_splits)
  then show ?thesis by (simp add: channels_def lit_def digit_val_def)
next
  case (Some v)
  then have "(m, v) \<in> set backgroundColors" by (rule map_of_SomeD)
  then have v: "v \<in> snd ` set backgroundColors" by force
  from Some assms have "col = v \<or> col = lit ''#FFE066''"
    by (simp add: bgColor_of_def get_backgroundColor_def split: if_splits)
  then show ?thesis
  proof
    assume "col = v"
    with v show ?thesis by (simp add: palette_hex6)
  next
    assume "col = lit ''#FFE066''"
    then show ?thesis by (simp add: channels_def lit_def digit_val_def)
  qed
qed

lemma paint_background_eq:
  "paint_background cp a c =
     (case bgColor_of (selectedMood a) of
        Str col \<Rightarrow>
          Inr (c\<lparr>fillStyle := Gradient (RadialGradient 256 256 0 256 256 300
                                [(0, col), (1, adjustBrightness col (- 20))]),
                 drawn := drawn c @
                   [FillRect 0 0 (canvas_width c) (canvas_height c)
                      (Gradient (RadialGradient 256 256 0 256 256 300
                                   [(0, col), (1, adjustBrightness col (- 20))]))
                      (shadow_of c)]\<rparr>)
      | _ \<Rightarrow> Inl SyntaxError)"
proof (cases "bgColor_of (selectedMood a)")
  case (Str col)
  then have "is_css_color cp col" by (intro hex6_css bgColor_hex6)
  with Str show ?thesis
    by (simp add: paint_background_def addColorStop_def adjustBrightness_val_def
        createRadialGradient_def fillRect_def shadow_of_def Let_def)
qed (simp_all add: paint_background_def addColorStop_def Let_def)

lemma draw_emoji_fields:
  "canvas_width (draw_emoji a c) = canvas_width c" "canvas_height (draw_emoji a c) = canvas_height c"
  "shadowBlur (draw_emoji a c) = shadowBlur c" "shadowOffsetX (draw_emoji a c) = shadowOffsetX c"
  "shadowOffsetY (draw_emoji a c) = shadowOffsetY c"
  by (simp_all add: draw_emoji_def fillText_def Let_def)

lemma draw_emoji_drawn:
  "quiescent c \<Longrightarrow> drawn (draw_emoji a c) =
     drawn c @
     [FillText (selectedEmoji a) 258 258 (Color (lit ''rgba(0, 0, 0, 0.2)''))
        (Typography (lit ''200px Arial'') (lit ''center'') (lit ''middle'')) NoShadow,
      FillText (selectedEmoji a) 256 256 (Color (lit ''#000000''))
        (Typography (lit ''200px Arial'') (lit ''center'') (lit ''middle'')) NoShadow]"
  by (simp add: draw_emoji_def canvas_defs quiescent_def Let_def)



lemma drawStyledText_fst:
  "fst (drawStyledText cp mt a t x y c) = fst (drawStyledText cp mt a t x y c')"
  by (simp add: text_defs Let_def)

lemma drawStyledText_fields:
  "canvas_width (snd (drawStyledText cp mt a t x y c)) = canvas_width c"
  "canvas_height (snd (drawStyledText cp mt a t x y c)) = canvas_height c"
  by (simp_all add: text_defs canvas_defs rainbow_loop_fields Let_def)

lemma drawStyledText_quiescent:
  "quiescent c \<Longrightarrow> quiescent (snd (drawStyledText cp mt a t x y c))"
  by (simp add: quiescent_def text_defs canvas_defs rainbow_loop_fields Let_def)

lemma drawStyledText_drawn:
  assumes "quiescent c" "quiescent c'"
  shows "drop (length (drawn c)) (drawn (snd (drawStyledText cp mt a t x y c))) =
         drop (length (drawn c')) (drawn (snd (drawStyledText cp mt a t x y c')))"
  using assms
  by (simp add: quiescent_def text_defs canvas_defs rainbow_loop_fields rainbow_loop_drawn Let_def)

lemma drawStyledText_appends:
  "take (length (drawn c)) (drawn (snd (drawStyledText cp mt a t x y c))) = drawn c"
  by (simp add: text_defs canvas_defs rainbow_loop_fields rainbow_loop_drawn Let_def)

lemma drawStyledText_split:
  "drawn (snd (drawStyledText cp mt a t x y c)) =
     drawn c @ drop (length (drawn c)) (drawn (snd (drawStyledText cp mt a t x y c)))"
  using drawStyledText_appends [of c cp mt a t x y]
    append_take_drop_id [of "length (drawn c)" "drawn (snd (drawStyledText cp mt a t x y c))"]
  by simp

lemma updatePreview_thrown:
  assumes "\<forall>col. bgColor_of (selectedMood a) \<noteq> Str col"
  shows "updatePreview cp mt a c = (Some SyntaxError, c\<lparr>drawn := []\<rparr>)"
  using assms
  by (cases "bgColor_of (selectedMood a)")
     (simp_all add: updatePreview_def clearRect_all paint_background_eq)

lemma updatePreview_painted:
  assumes "bgColor_of (selectedMood a) = Str col"
  shows "updatePreview cp mt a c =
           (if trim (customText a) \<noteq> []
            then (if fst (drawStyledText cp mt a (trim (customText a)) 256 400 (painted a col c)) = None
                  then (None, add_border
                          (snd (drawStyledText cp mt a (trim (customText a)) 256 400 (painted a col c))))
                  else drawStyledText cp mt a (trim (customText a)) 256 400 (painted a col c))
            else (None, add_border (painted a col c)))"
  using assms
  by (cases "drawStyledText cp mt a (trim (customText a)) 256 400 (painted a col c)")
     (auto simp: updatePreview_def clearRect_all paint_background_eq painted_def shadow_of_def Let_def)

lemma painted_facts:
  assumes "quiescent c"
  shows "quiescent (painted a col c)"
    and "canvas_width (painted a col c) = canvas_width c"
    and "canvas_height (painted a col c) = canvas_height c"
    and "drawn (painted a col c) =
          [FillRect 0 0 (canvas_width c) (canvas_height c)
             (Gradient (RadialGradient 256 256 0 256 256 300 [(0, col), (1, adjustBrightness col (- 20))]))
             NoShadow,
           FillText (selectedEmoji a) 258 258 (Color (lit ''rgba(0, 0, 0, 0.2)''))
             (Typography (lit ''200px Arial'') (lit ''center'') (lit ''middle'')) NoShadow,
           FillText (selectedEmoji a) 256 256 (Color (lit ''#000000''))
             (Typography (lit ''200px Arial'') (lit ''center'') (lit ''middle'')) NoShadow]"
proof -
  let ?c2 = "c\<lparr>drawn := [],
          fillStyle := Gradient (RadialGradient 256 256 0 256 256 300
                                   [(0, col), (1, adjustBrightness col (- 20))]),
          drawn := [FillRect 0 0 (canvas_width c) (canvas_height c)
                      (Gradient (RadialGradient 256 256 0 256 256 300
                                   [(0, col), (1, adjustBrightness col (- 20))]))
                      (shadow_of c)]\<rparr>"
  from assms have q: "quiescent ?c2" by (simp add: quiescent_def)
  show "quiescent (painted a col c)"
    using q by (simp add: painted_def quiescent_def draw_emoji_fields)
  show "canvas_width (painted a col c) = canvas_width c" "canvas_height (painted a col c) = canvas_height c"
    by (simp_all add: painted_def draw_emoji_fields)
  from assms have "shadow_of c = NoShadow" by (simp add: quiescent_def shadow_of_def)
  then show "drawn (painted a col c) =
          [FillRect 0 0 (canvas_width c) (canvas_height c)
             (Gradient (RadialGradient 256 256 0 256 256 300 [(0, col), (1, adjustBrightness col (- 20))]))
             NoShadow,
           FillText (selectedEmoji a) 258 258 (Color (lit ''rgba(0, 0, 0, 0.2)''))
             (Typography (lit ''200px Arial'') (lit ''center'') (lit ''middle'')) NoShadow,
           FillText (selectedEmoji a) 256 256 (Color (lit ''#000000''))
             (Typography (lit ''200px Arial'') (lit ''center'') (lit ''middle'')) NoShadow]"
    unfolding painted_def using draw_emoji_drawn [OF q, of a] by simp
qed

lemma add_border_drawn:
  "quiescent c \<Longrightarrow> drawn (add_border c) =
     drawn c @ [StrokeRect 2 2 (canvas_width c - 4) (canvas_height c - 4)
                  (Color (lit ''rgba(255, 255, 255, 0.3)'')) 4 NoShadow]"
  by (simp add: add_border_def strokeRect_def shadow_of_def quiescent_def)

lemma add_border_fields:
  "quiescent (add_border c) = quiescent c" "canvas_width (add_border c) = canvas_width c"
  "canvas_height (add_border c) = canvas_height c"
  by (simp_all add: add_border_def strokeRect_def quiescent_def)

lemma updatePreview_dims:
  "canvas_width (snd (updatePreview cp mt a c)) = canvas_width c \<and>
   canvas_height (snd (updatePreview cp mt a c)) = canvas_height c"
proof (cases "\<exists>col. bgColor_of (selectedMood a) = Str col")
  case True
  then obtain col where "bgColor_of (selectedMood a) = Str col" ..
  then show ?thesis
    by (simp add: updatePreview_painted add_border_fields drawStyledText_fields painted_def
        draw_emoji_fields)
next
  case False
  then show ?thesis by (simp add: updatePreview_thrown)
qed

lemma updatePreview_quiescent:
  assumes "quiescent c"
  shows "quiescent (snd (updatePreview cp mt a c))"
proof (cases "\<exists>col. bgColor_of (selectedMood a) = Str col")
  case True
  then obtain col where "bgColor_of (selectedMood a) = Str col" ..
  then show ?thesis
    using assms
    by (simp add: updatePreview_painted add_border_fields drawStyledText_quiescent painted_facts)
next
  case False
  then show ?thesis using assms by (simp add: updatePreview_thrown quiescent_def)
qed

lemma updatePreview_same_output:
  assumes q: "quiescent c" "quiescent c'"
    and d: "canvas_width c = canvas_width c'" "canvas_height c = canvas_height c'"
  shows "fst (updatePreview cp mt a c) = fst (updatePreview cp mt a c') \<and>
         drawn (snd (updatePreview cp mt a c)) = drawn (snd (updatePreview cp mt a c'))"
proof (cases "\<exists>col. bgColor_of (selectedMood a) = Str col")
  case True
  then obtain col where col: "bgColor_of (selectedMood a) = Str col" ..
  let ?p = "painted a col c" and ?p' = "painted a col c'"
  let ?t = "trim (customText a)"
  let ?s = "drawStyledText cp mt a ?t 256 400 ?p" and ?s' = "drawStyledText cp mt a ?t 256 400 ?p'"
  have qp: "quiescent ?p" "quiescent ?p'" using q by (simp_all add: painted_facts)
  have dp: "drawn ?p = drawn ?p'" using q d by (simp add: painted_facts)
  have wp: "canvas_width ?p = canvas_width ?p'" "canvas_height ?p = canvas_height ?p'"
    using q d by (simp_all add: painted_facts)
  have f: "fst ?s = fst ?s'" by (rule drawStyledText_fst)
  have ds: "drawn (snd ?s) = drawn (snd ?s')"
    using drawStyledText_split [of cp mt a ?t 256 400 ?p]
      drawStyledText_split [of cp mt a ?t 256 400 ?p']
      drawStyledText_drawn [OF qp, of cp mt a ?t 256 400] dp
    by simp
  then have "drawn (add_border (snd ?s)) = drawn (add_border (snd ?s'))"
    using qp wp by (simp add: add_border_drawn drawStyledText_quiescent drawStyledText_fields)
  moreover have "drawn (add_border ?p) = drawn (add_border ?p')"
    using qp wp dp by (simp add: add_border_drawn)
  ultimately show ?thesis using col f ds by (simp add: updatePreview_painted)
next
  case False
  then show ?thesis by (simp add: updatePreview_thrown)
qed

lemma fresh_quiescent: "quiescent (fresh_context w h)"
  by (simp add: quiescent_def fresh_context_def)

lemma reachable_invariant:
  "reachable cp mt w h c \<Longrightarrow> quiescent c \<and> canvas_width c = w \<and> canvas_height c = h"
proof (induction rule: reachable.induct)
  case fresh
  show ?case by (simp add: fresh_quiescent) (simp add: fresh_context_def)
next
  case (call c a)
  then show ?case by (simp add: updatePreview_quiescent updatePreview_dims)
qed

section \<open>The mood palette\<close>







section \<open>The call as a whole\<close>




lemma darker_red: "adjustBrightness (lit ''#FF0000'') (- 40) = lit ''#d70000''"
proof -
  have ch: "channels (lit ''#FF0000'') = Some (255, 0, 0)"
    by (simp add: channels_def lit_def digit_val_def)
  show ?thesis
    using adjust_channels(1) [OF ch, of "- 40"]
    by (simp add: saturate_def hex_color_def hex_digit_def lit_def)
qed





section \<open>The text effects\<close>

text \<open>
  Claim C2, as the program has it. With the effect \<open>outline\<close> the renderer strokes the
  outline of the text in \<open>textColor\<close> darkened by 40 units, with stroke width 4, and then
  fills the glyphs in \<open>textColor\<close>: the branch ends in \<open>break\<close> and the fill of the main
  text follows, as for \<open>shadow\<close> and \<open>glow\<close>.
\<close>

theorem outline_strokes_then_fills:
  assumes "selectedEffect a = lit ''outline''"
  shows "fst (drawStyledText cp mt a t x y c) = None \<and>
         drawn (snd (drawStyledText cp mt a t x y c)) =
           drawn c @
           [StrokeText t x y (Color (adjustBrightness (textColor a) (- 40))) 4 caption_type (shadow_of c),
            FillText t x y (Color (textColor a)) caption_type (shadow_of c)]"
proof -
  let ?c = "c\<lparr>font := lit ''bold 48px Roboto, Arial, sans-serif'', textAlign := lit ''center'',
               textBaseline := lit ''middle''\<rparr>"
  let ?s = "strokeText t x y
              (?c\<lparr>strokeStyle := Color (adjustBrightness (textColor a) (- 40)), lineWidth := 4\<rparr>)"
  have branch: "drawStyledText cp mt a t x y c = (None, draw_main_text a t x y ?s)"
    using assms by (simp add: drawStyledText_def Let_def)
  have stroke: "drawn ?s =
      drawn c @ [StrokeText t x y (Color (adjustBrightness (textColor a) (- 40))) 4 caption_type
                   (shadow_of c)]"
    by (simp add: canvas_defs caption_type_def)
  have fill: "drawn (draw_main_text a t x y ?s) =
      drawn ?s @ [FillText t x y (Color (textColor a)) caption_type (shadow_of c)]"
    by (simp add: draw_main_text_def canvas_defs caption_type_def)
  have "drawn (draw_main_text a t x y ?s) =
      drawn c @
      [StrokeText t x y (Color (adjustBrightness (textColor a) (- 40))) 4 caption_type (shadow_of c),
       FillText t x y (Color (textColor a)) caption_type (shadow_of c)]"
    by (simp only: fill stroke) simp
  then show ?thesis by (simp add: branch)
qed

text \<open>
  Claim C2, an instance of the theorem: the caption \<open>Oh\<close> in \<open>#4ECDC4\<close> on a fresh context.
\<close>

theorem outline_strokes_then_fills_witness:
  "drawn (snd (drawStyledText hex_only fixed_pitch
            \<lparr>selectedMood = lit ''sad'', selectedEmoji = [0xD83D, 0xDE22], customText = lit ''Oh'',
             textColor = lit ''#4ECDC4'', selectedEffect = lit ''outline''\<rparr>
            (lit ''Oh'') 256 400 (fresh_context 512 512))) =
     [StrokeText (lit ''Oh'') 256 400 (Color (adjustBrightness (lit ''#4ECDC4'') (- 40))) 4
        caption_type NoShadow,
      FillText (lit ''Oh'') 256 400 (Color (lit ''#4ECDC4'')) caption_type NoShadow]"
  using outline_strokes_then_fills [where a = "\<lparr>selectedMood = lit ''sad'',
      selectedEmoji = [0xD83D, 0xDE22], customText = lit ''Oh'', textColor = lit ''#4ECDC4'',
      selectedEffect = lit ''outline''\<rparr>"
      and cp = hex_only and mt = fixed_pitch and t = "lit ''Oh''" and x = 256 and y = 400
      and c = "fresh_context 512 512"]
  by (simp add: fresh_context_def shadow_of_def)

text \<open>
  Claim C2 as stated fails: for the caption \<open>Hi\<close> in \<open>#FF0000\<close> with the effect
  \<open>outline\<close>, the stroke in \<open>#d70000\<close> is followed by an interior fill in \<open>#FF0000\<close>.
\<close>

theorem outline_fills_interior:
  "drawn (snd (drawStyledText hex_only fixed_pitch
            \<lparr>selectedMood = lit ''happy'', selectedEmoji = [0xD83D, 0xDE0A], customText = lit ''Hi'',
             textColor = lit ''#FF0000'', selectedEffect = lit ''outline''\<rparr>
            (lit ''Hi'') 256 400 (fresh_context 512 512))) =
     [StrokeText (lit ''Hi'') 256 400 (Color (lit ''#d70000'')) 4 caption_type NoShadow,
      FillText (lit ''Hi'') 256 400 (Color (lit ''#FF0000'')) caption_type NoShadow]"
  using darker_red
  by (simp add: text_defs canvas_defs caption_type_def fresh_context_def Let_def)

text \<open>
  Claim C9. With the effect \<open>glow\<close> the renderer switches on a shadow of blur 10 and offset
  0 in \<open>textColor\<close> and fills the text in \<open>textColor\<close> under it; when the text stage is over
  the blur is 0 again and no shadow is on, so the border stroke that follows is drawn
  without the halo.
\<close>

theorem glow_halo_reset:
  assumes "selectedEffect a = lit ''glow''"
  shows "fst (drawStyledText cp mt a t x y c) = None
         \<and> drawn (snd (drawStyledText cp mt a t x y c)) =
           drawn c @ [FillText t x y (Color (textColor a)) caption_type (Shadow (textColor a) 10 0 0)]
         \<and> shadowBlur (snd (drawStyledText cp mt a t x y c)) = 0
         \<and> shadow_of (snd (drawStyledText cp mt a t x y c)) = NoShadow
         \<and> drawn (add_border (snd (drawStyledText cp mt a t x y c))) =
             drawn c @ [FillText t x y (Color (textColor a)) caption_type (Shadow (textColor a) 10 0 0),
                        StrokeRect 2 2 (canvas_width c - 4) (canvas_height c - 4)
                          (Color (lit ''rgba(255, 255, 255, 0.3)'')) 4 NoShadow]"
  using assms
  by (simp add: text_defs canvas_defs caption_type_def add_border_def Let_def)

text \<open>
  Claim C9, an instance of the theorem: the caption \<open>Party!\<close> in \<open>#FF00FF\<close> on a fresh
  512 by 512 canvas.
\<close>

theorem glow_halo_reset_witness:
  "drawn (add_border (snd (drawStyledText hex_only fixed_pitch
            \<lparr>selectedMood = lit ''happy'', selectedEmoji = [0xD83C, 0xDF89],
             customText = lit ''Party!'', textColor = lit ''#FF00FF'', selectedEffect = lit ''glow''\<rparr>
            (lit ''Party!'') 256 400 (fresh_context 512 512)))) =
     [FillText (lit ''Party!'') 256 400 (Color (lit ''#FF00FF'')) caption_type
        (Shadow (lit ''#FF00FF'') 10 0 0),
      StrokeRect 2 2 508 508 (Color (lit ''rgba(255, 255, 255, 0.3)'')) 4 NoShadow]"
  using glow_halo_reset [where a = "\<lparr>selectedMood = lit ''happy'', selectedEmoji = [0xD83C, 0xDF89],
      customText = lit ''Party!'', textColor = lit ''#FF00FF'', selectedEffect = lit ''glow''\<rparr>"
      and cp = hex_only and mt = fixed_pitch and t = "lit ''Party!''" and x = 256 and y = 400
      and c = "fresh_context 512 512"]
  by (simp add: fresh_context_def)

section \<open>The rainbow effect\<close>

lemma code_points_bmp:
  "\<forall>u \<in> set t. \<not> (0xD800 \<le> u \<and> u \<le> 0xDBFF) \<Longrightarrow> code_points t = map unat t"
  by (induction t rule: code_points.induct) auto

lemma rainbow_AB:
  "drawn (drawRainbowText mt (lit ''AB'') 256 y c) =
     drawn c @
     [FillText (lit ''A'') (256 - mt (font c) (lit ''AB'') / 4) y (Color (lit ''#FF0000''))
        (typography_of c) (shadow_of c),
      FillText (lit ''B'') (256 + mt (font c) (lit ''AB'') / 4) y (Color (lit ''#FF7F00''))
        (typography_of c) (shadow_of c)]"
  by (simp add: drawRainbowText_drawn rainbow_glyph_def rainbow_colors_def lit_def upt_rec
      algebra_simps)

text \<open>
  Claim C4 at the caption that is the one character U+1F600. The string has two code units,
  \<open>text.length\<close> is 2 and \<open>text[i]\<close> is a lone surrogate: the loop draws two glyphs, one
  for each half of the character, and divides the measured width by 2. (For a string
  without surrogates the code units are the characters, \<open>code_points_bmp\<close>, and
  \<open>drawRainbowText_drawn\<close> and \<open>rainbow_AB\<close> give what the claim says.)
\<close>

theorem rainbow_splits_surrogate_pair:
  "code_points [0xD83D, 0xDE00] = [0x1F600] \<and>
   glyphs (drawn (drawRainbowText mt [0xD83D, 0xDE00] 256 400 (fresh_context 512 512))) =
     [[0xD83D], [0xDE00]]"
  by (simp add: drawRainbowText_drawn glyphs_def rainbow_glyph_def upt_rec fresh_context_def)

text \<open>
  Claim C10. With the effect \<open>rainbow\<close> a call of \<open>updatePreview\<close> gives the same result
  and leaves the same context and canvas for any two values of \<open>textColor\<close>.
\<close>

theorem rainbow_ignores_textColor:
  assumes "selectedEffect a = lit ''rainbow''"
  shows "updatePreview cp mt (a\<lparr>textColor := p\<rparr>) c = updatePreview cp mt (a\<lparr>textColor := q\<rparr>) c"
  using assms
  by (simp add: updatePreview_def draw_emoji_def drawStyledText_def paint_background_def Let_def
      split: sum.splits)

text \<open>
  Claim C10, an instance of the theorem: the caption \<open>AB\<close> in black and in red.
\<close>

theorem rainbow_ignores_textColor_witness:
  "updatePreview hex_only fixed_pitch
     \<lparr>selectedMood = lit ''cool'', selectedEmoji = [0xD83D, 0xDE0E], customText = lit ''AB'',
      textColor = lit ''#000000'', selectedEffect = lit ''rainbow''\<rparr> (fresh_context 512 512) =
   updatePreview hex_only fixed_pitch
     \<lparr>selectedMood = lit ''cool'', selectedEmoji = [0xD83D, 0xDE0E], customText = lit ''AB'',
      textColor = lit ''#FF0000'', selectedEffect = lit ''rainbow''\<rparr> (fresh_context 512 512)"
  using rainbow_ignores_textColor [where a = "\<lparr>selectedMood = lit ''cool'',
      selectedEmoji = [0xD83D, 0xDE0E], customText = lit ''AB'', textColor = lit ''#000000'',
      selectedEffect = lit ''rainbow''\<rparr>"
      and cp = hex_only and mt = fixed_pitch and p = "lit ''#000000''"
      and c = "fresh_context 512 512" and q = "lit ''#FF0000''"]
  by simp

section \<open>The pipeline\<close>

text \<open>
  Claim C7. When the text is empty after trimming, whatever the effect, a call of
  \<open>updatePreview\<close> is the pipeline without the text stage: background, emoji and border.
\<close>

theorem empty_text_skips_text_stage:
  assumes "trim (customText a) = []"
  shows "updatePreview cp mt a c = updatePreview_without_text cp a c"
  using assms
  by (simp add: updatePreview_def updatePreview_without_text_def Let_def split: sum.splits)

text \<open>
  Claim C7, an instance of the theorem: a text of two spaces with the effect \<open>glow\<close>.
\<close>

theorem empty_text_skips_text_stage_witness:
  "trim (lit ''  '') = [] \<and>
   updatePreview hex_only fixed_pitch
     \<lparr>selectedMood = lit ''calm'', selectedEmoji = [0xD83D, 0xDE0C], customText = lit ''  '',
      textColor = lit ''#000000'', selectedEffect = lit ''glow''\<rparr> (fresh_context 512 512) =
   updatePreview_without_text hex_only
     \<lparr>selectedMood = lit ''calm'', selectedEmoji = [0xD83D, 0xDE0C], customText = lit ''  '',
      textColor = lit ''#000000'', selectedEffect = lit ''glow''\<rparr> (fresh_context 512 512)"
proof -
  have t: "trim (lit ''  '') = []"
    by (simp add: trim_def lit_def is_space_def)
  then show ?thesis
    using empty_text_skips_text_stage [where a = "\<lparr>selectedMood = lit ''calm'',
      selectedEmoji = [0xD83D, 0xDE0C], customText = lit ''  '', textColor = lit ''#000000'',
      selectedEffect = lit ''glow''\<rparr>"
      and cp = hex_only and mt = fixed_pitch and c = "fresh_context 512 512"]
    by simp
qed

text \<open>
  Claim C8. The context outlives a call, and it is the only state a call finds. In whatever
  two states that earlier calls can have left it, a call of \<open>updatePreview\<close> for the same
  selection ends the same way and leaves the same drawing on the canvas.
\<close>

theorem updatePreview_deterministic:
  assumes "reachable cp mt w h c1" and "reachable cp mt w h c2"
  shows "fst (updatePreview cp mt a c1) = fst (updatePreview cp mt a c2) \<and>
         drawn (snd (updatePreview cp mt a c1)) = drawn (snd (updatePreview cp mt a c2))"
proof -
  from assms have "quiescent c1" "quiescent c2"
    and "canvas_width c1 = canvas_width c2" "canvas_height c1 = canvas_height c2"
    by (auto dest: reachable_invariant)
  then show ?thesis by (rule updatePreview_same_output)
qed

text \<open>
  Claim C8, an instance of the theorem: the same selection drawn on a fresh context and on
  the context that a call with the effect \<open>glow\<close> has left.
\<close>

theorem updatePreview_deterministic_witness:
  "drawn (snd (updatePreview hex_only fixed_pitch
     \<lparr>selectedMood = lit ''love'', selectedEmoji = [0xD83D, 0xDE0D], customText = lit ''AB'',
      textColor = lit ''#800080'', selectedEffect = lit ''shadow''\<rparr> (fresh_context 512 512))) =
   drawn (snd (updatePreview hex_only fixed_pitch
     \<lparr>selectedMood = lit ''love'', selectedEmoji = [0xD83D, 0xDE0D], customText = lit ''AB'',
      textColor = lit ''#800080'', selectedEffect = lit ''shadow''\<rparr>
     (snd (updatePreview hex_only fixed_pitch
        \<lparr>selectedMood = lit ''happy'', selectedEmoji = [0xD83C, 0xDF89], customText = lit ''Party!'',
         textColor = lit ''#FF00FF'', selectedEffect = lit ''glow''\<rparr> (fresh_context 512 512)))))"
proof -
  have r1: "reachable hex_only fixed_pitch 512 512 (fresh_context 512 512)"
    by (rule reachable.fresh)
  have r2: "reachable hex_only fixed_pitch 512 512 (snd (updatePreview hex_only fixed_pitch
        \<lparr>selectedMood = lit ''happy'', selectedEmoji = [0xD83C, 0xDF89], customText = lit ''Party!'',
         textColor = lit ''#FF00FF'', selectedEffect = lit ''glow''\<rparr> (fresh_context 512 512)))"
    by (rule reachable.call [OF r1])
  show ?thesis
    using updatePreview_deterministic [OF r1 r2] by simp
qed

section \<open>The background\<close>



section \<open>Unknown moods and malformed colours\<close>







end
